theory Spec2Isabelle
  imports Main
begin

section \<open>Shared types and constants (shared types module)\<close>

text \<open>
  \<^verbatim>\<open>interface JWTPayload { userId; email; role; agencyId?; permissions }\<close>.
  The refresh-token generator takes \<^verbatim>\<open>Omit<JWTPayload, 'permissions'>\<close>; the record is
  split accordingly, so that a function on the base scheme accepts both, as the
  structurally typed source does.
\<close>

record JWTPayloadBase =
  userId :: string
  email :: string
  role :: string
  agencyId :: "string option"

record JWTPayload = JWTPayloadBase +
  permissions :: "string list"

definition SUPER_ADMIN :: string where "SUPER_ADMIN = ''super_admin''"
definition CLIENT :: string where "CLIENT = ''client''"
definition AGENCY_ADMIN :: string where "AGENCY_ADMIN = ''admin''"
definition AGENCY_EDITOR :: string where "AGENCY_EDITOR = ''editor''"
definition AGENCY_VIEWER :: string where "AGENCY_VIEWER = ''viewer''"

definition MANAGE_STUDENTS :: string where "MANAGE_STUDENTS = ''manage_students''"

section \<open>Errors (errorMiddleware.ts)\<close>

text \<open>A plain \<^verbatim>\<open>new Error(message)\<close>.\<close>

datatype js_error = Error string

text \<open>
  What a middleware hands to \<^verbatim>\<open>next(error)\<close>: a \<^verbatim>\<open>CustomError\<close> (a message and an HTTP
  status code), or the \<^verbatim>\<open>CastError\<close> that mongoose throws when a query value cannot be
  cast to the type of its path; it carries the offending value.
\<close>

datatype app_error = CustomError string nat | CastError string

definition unauthorizedError :: "string \<Rightarrow> app_error" where
  "unauthorizedError message = CustomError message 401"

definition forbiddenError :: "string \<Rightarrow> app_error" where
  "forbiddenError message = CustomError message 403"

text \<open>
  The status the global \<^verbatim>\<open>errorHandler\<close> answers with: a \<^verbatim>\<open>CastError\<close> becomes
  \<^verbatim>\<open>CustomError('Resource not found', 404)\<close>; otherwise \<^verbatim>\<open>error.statusCode || 500\<close>.
\<close>

fun errorHandlerStatus :: "app_error \<Rightarrow> nat" where
  "errorHandlerStatus (CastError v) = 404"
| "errorHandlerStatus (CustomError message code) = (if code = 0 then 500 else code)"

section \<open>Tokens (utils/jwt)\<close>

subsection \<open>The decoded claims object\<close>

text \<open>
  \<^verbatim>\<open>interface TokenPayload extends JWTPayload { iat?; exp?; type? }\<close> is the static type
  given to a decoded token. At run time the object holds whatever claims were signed:
  a refresh token has no \<^verbatim>\<open>permissions\<close>, a password-reset token no \<^verbatim>\<open>role\<close>. So every
  claim is optional here; \<^verbatim>\<open>aud\<close> is the list of audiences (a single string is a
  one-element list, an absent claim the empty list). Times are seconds since the epoch.
\<close>

record TokenPayload =
  tp_userId :: "string option"
  tp_email :: "string option"
  tp_role :: "string option"
  tp_agencyId :: "string option"
  tp_permissions :: "string list option"
  tp_type :: "string option"
  tp_iss :: "string option"
  tp_aud :: "string list"
  tp_iat :: "int option"
  tp_nbf :: "int option"
  tp_exp :: "int option"

definition no_claims :: TokenPayload where
  "no_claims = \<lparr>tp_userId = None, tp_email = None, tp_role = None, tp_agencyId = None,
     tp_permissions = None, tp_type = None, tp_iss = None, tp_aud = [], tp_iat = None,
     tp_nbf = None, tp_exp = None\<rparr>"

subsection \<open>The jsonwebtoken dependency\<close>

text \<open>
  \<^verbatim>\<open>jwt.sign\<close> and \<^verbatim>\<open>jwt.verify\<close> belong to the \<^verbatim>\<open>jsonwebtoken\<close> package, a dependency
  that is not part of the repository's sources. They are modelled after the package's
  behaviour, with the HMAC signature treated symbolically: a well-formed token records
  the secret it was signed with and the claims it carries, and its signature checks
  exactly under that secret. Any other string is \<open>Malformed\<close>.
\<close>

datatype token = Jwt (signing_secret: string) (claims: TokenPayload) | Malformed string

text \<open>
  The package's error classes. \<^verbatim>\<open>TokenExpiredError\<close> and \<^verbatim>\<open>NotBeforeError\<close> are
  subclasses of \<^verbatim>\<open>JsonWebTokenError\<close>; \<open>PlainError\<close> is any other thrown \<^verbatim>\<open>Error\<close>.
\<close>

datatype thrown =
    JsonWebTokenError string
  | NotBeforeError string
  | TokenExpiredError string
  | PlainError string

fun instanceof_TokenExpiredError :: "thrown \<Rightarrow> bool" where
  "instanceof_TokenExpiredError (TokenExpiredError m) = True"
| "instanceof_TokenExpiredError e = False"

fun instanceof_JsonWebTokenError :: "thrown \<Rightarrow> bool" where
  "instanceof_JsonWebTokenError (PlainError m) = False"
| "instanceof_JsonWebTokenError e = True"

text \<open>
  \<^verbatim>\<open>jwt.sign(payload, secret, {expiresIn, issuer, audience})\<close> at clock \<open>now\<close>.
  \<open>expiresIn\<close> is the configured time span already converted to seconds, \<open>None\<close> when
  the configured string is not a time span. The call throws (\<open>None\<close>) for such a span and
  for a payload that already carries \<^verbatim>\<open>exp\<close>, \<^verbatim>\<open>iss\<close> or \<^verbatim>\<open>aud\<close>; otherwise it adds
  \<^verbatim>\<open>iat\<close> (kept when the payload has one), \<^verbatim>\<open>exp\<close>, \<^verbatim>\<open>iss\<close> and \<^verbatim>\<open>aud\<close> and signs.
\<close>

definition jwt_sign ::
  "TokenPayload \<Rightarrow> string \<Rightarrow> int option \<Rightarrow> string \<Rightarrow> string \<Rightarrow> int \<Rightarrow> token option" where
  "jwt_sign payload secret expiresIn issuer audience now =
     (case expiresIn of
        None \<Rightarrow> None
      | Some span \<Rightarrow>
          if tp_exp payload \<noteq> None \<or> tp_iss payload \<noteq> None \<or> tp_aud payload \<noteq> [] then None
          else
            let timestamp = (case tp_iat payload of Some i \<Rightarrow> i | None \<Rightarrow> now)
            in Some (Jwt secret
                 (payload\<lparr>tp_iat := Some timestamp, tp_exp := Some (timestamp + span),
                           tp_iss := Some issuer, tp_aud := [audience]\<rparr>)))"

text \<open>
  \<^verbatim>\<open>jwt.verify(token, secret, {issuer, audience})\<close> at clock \<open>now\<close>. The package checks,
  in this order: that the string is a token, its signature, \<^verbatim>\<open>nbf\<close>, \<^verbatim>\<open>exp\<close>
  (expired when \<open>now \<ge> exp\<close>), the audience, the issuer.
\<close>

definition jwt_verify ::
  "token \<Rightarrow> string \<Rightarrow> string \<Rightarrow> string \<Rightarrow> int \<Rightarrow> thrown + TokenPayload" where
  "jwt_verify tok secret issuer audience now =
     (case tok of
        Malformed s \<Rightarrow> Inl (JsonWebTokenError ''jwt malformed'')
      | Jwt k payload \<Rightarrow>
          if k \<noteq> secret then Inl (JsonWebTokenError ''invalid signature'')
          else if (case tp_nbf payload of Some n \<Rightarrow> now < n | None \<Rightarrow> False)
            then Inl (NotBeforeError ''jwt not active'')
          else if (case tp_exp payload of Some e \<Rightarrow> e \<le> now | None \<Rightarrow> False)
            then Inl (TokenExpiredError ''jwt expired'')
          else if audience \<notin> set (tp_aud payload)
            then Inl (JsonWebTokenError ''jwt audience invalid'')
          else if tp_iss payload \<noteq> Some issuer
            then Inl (JsonWebTokenError ''jwt issuer invalid'')
          else Inr payload)"

subsection \<open>Configuration read from the environment\<close>

text \<open>
  \<^verbatim>\<open>JWT_SECRET\<close>, \<^verbatim>\<open>JWT_EXPIRES_IN || '7d'\<close>, \<^verbatim>\<open>JWT_REFRESH_EXPIRES_IN || '30d'\<close>. The spans
  are held in seconds (\<open>None\<close>: not a time span).
\<close>

record env =
  JWT_SECRET :: string
  JWT_EXPIRES_IN :: "int option"
  JWT_REFRESH_EXPIRES_IN :: "int option"

definition default_env :: "string \<Rightarrow> env" where
  "default_env secret =
     \<lparr>JWT_SECRET = secret, JWT_EXPIRES_IN = Some (7 * 86400),
      JWT_REFRESH_EXPIRES_IN = Some (30 * 86400)\<rparr>"

subsection \<open>Issuing\<close>

text \<open>The object literal \<^verbatim>\<open>{ ...payload, type: 'access' }\<close>.\<close>

definition accessClaims :: "JWTPayload \<Rightarrow> TokenPayload" where
  "accessClaims payload =
     no_claims\<lparr>tp_userId := Some (userId payload), tp_email := Some (email payload),
               tp_role := Some (role payload), tp_agencyId := agencyId payload,
               tp_permissions := Some (permissions payload), tp_type := Some ''access''\<rparr>"

definition generateAccessToken :: "env \<Rightarrow> int \<Rightarrow> JWTPayload \<Rightarrow> js_error + token" where
  "generateAccessToken e now payload =
     (case jwt_sign (accessClaims payload) (JWT_SECRET e) (JWT_EXPIRES_IN e)
             ''study-abroad-saas'' ''saas-users'' now of
        None \<Rightarrow> Inl (Error ''Failed to generate access token'')
      | Some t \<Rightarrow> Inr t)"

text \<open>
  The object literal
  \<^verbatim>\<open>{ userId: payload.userId, email: payload.email, role: payload.role, type: 'refresh' }\<close>.
\<close>

definition refreshClaims :: "'a JWTPayloadBase_scheme \<Rightarrow> TokenPayload" where
  "refreshClaims payload =
     no_claims\<lparr>tp_userId := Some (userId payload), tp_email := Some (email payload),
               tp_role := Some (role payload), tp_type := Some ''refresh''\<rparr>"

definition generateRefreshToken ::
  "env \<Rightarrow> int \<Rightarrow> 'a JWTPayloadBase_scheme \<Rightarrow> js_error + token" where
  "generateRefreshToken e now payload =
     (case jwt_sign (refreshClaims payload) (JWT_SECRET e) (JWT_REFRESH_EXPIRES_IN e)
             ''study-abroad-saas'' ''saas-users'' now of
        None \<Rightarrow> Inl (Error ''Failed to generate refresh token'')
      | Some t \<Rightarrow> Inr t)"

text \<open>
  \<^verbatim>\<open>generateTokens\<close>: the access token first, then the refresh token from
  \<^verbatim>\<open>{ userId, email, role, agencyId }\<close>; the first failure propagates.
\<close>

definition generateTokens :: "env \<Rightarrow> int \<Rightarrow> JWTPayload \<Rightarrow> js_error + (token \<times> token)" where
  "generateTokens e now payload =
     (case generateAccessToken e now payload of
        Inl err \<Rightarrow> Inl err
      | Inr accessToken \<Rightarrow>
          (case generateRefreshToken e now
                  \<lparr>userId = userId payload, email = email payload, role = role payload,
                   agencyId = agencyId payload\<rparr> of
             Inl err \<Rightarrow> Inl err
           | Inr refreshToken \<Rightarrow> Inr (accessToken, refreshToken)))"

text \<open>The object literal \<^verbatim>\<open>{ userId, email, type: 'password_reset' }\<close>, signed for one hour.\<close>

definition passwordResetClaims :: "string \<Rightarrow> string \<Rightarrow> TokenPayload" where
  "passwordResetClaims uid mail =
     no_claims\<lparr>tp_userId := Some uid, tp_email := Some mail,
               tp_type := Some ''password_reset''\<rparr>"

definition generatePasswordResetToken :: "env \<Rightarrow> int \<Rightarrow> string \<Rightarrow> string \<Rightarrow> js_error + token" where
  "generatePasswordResetToken e now uid mail =
     (case jwt_sign (passwordResetClaims uid mail) (JWT_SECRET e) (Some 3600)
             ''study-abroad-saas'' ''password-reset'' now of
        None \<Rightarrow> Inl (Error ''Failed to generate password reset token'')
      | Some t \<Rightarrow> Inr t)"

subsection \<open>Verifying\<close>

text \<open>
  \<^verbatim>\<open>verifyToken\<close>: the catch block tests \<^verbatim>\<open>TokenExpiredError\<close> first, then
  \<^verbatim>\<open>JsonWebTokenError\<close>, and rethrows a plain \<^verbatim>\<open>Error\<close> with a fixed message.
\<close>

definition verifyToken :: "env \<Rightarrow> int \<Rightarrow> token \<Rightarrow> js_error + TokenPayload" where
  "verifyToken e now tok =
     (case jwt_verify tok (JWT_SECRET e) ''study-abroad-saas'' ''saas-users'' now of
        Inr decoded \<Rightarrow> Inr decoded
      | Inl err \<Rightarrow>
          if instanceof_TokenExpiredError err then Inl (Error ''Token expired'')
          else if instanceof_JsonWebTokenError err then Inl (Error ''Invalid token'')
          else Inl (Error ''Token verification failed''))"

text \<open>
  \<^verbatim>\<open>verifyPasswordResetToken\<close>: the type check throws a plain \<^verbatim>\<open>Error\<close> inside the
  \<^verbatim>\<open>try\<close>, so the same catch block handles it. The result is \<^verbatim>\<open>{ userId, email }\<close>.
\<close>

definition verifyPasswordResetToken ::
  "env \<Rightarrow> int \<Rightarrow> token \<Rightarrow> js_error + (string option \<times> string option)" where
  "verifyPasswordResetToken e now tok =
     (let attempt =
        (case jwt_verify tok (JWT_SECRET e) ''study-abroad-saas'' ''password-reset'' now of
           Inl err \<Rightarrow> Inl err
         | Inr decoded \<Rightarrow>
             if tp_type decoded \<noteq> Some ''password_reset''
             then Inl (PlainError ''Invalid token type'')
             else Inr (tp_userId decoded, tp_email decoded))
      in case attempt of
           Inr r \<Rightarrow> Inr r
         | Inl err \<Rightarrow>
             if instanceof_TokenExpiredError err
               then Inl (Error ''Password reset token expired'')
             else if instanceof_JsonWebTokenError err
               then Inl (Error ''Invalid password reset token'')
             else Inl (Error ''Password reset token verification failed''))"

subsection \<open>Reading the Authorization header\<close>

text \<open>
  JavaScript's \<^verbatim>\<open>s.split(' ')\<close>: the pieces between single spaces, in order; the empty
  string gives one empty piece, and adjacent spaces give empty pieces.
\<close>

fun split_space :: "string \<Rightarrow> string list" where
  "split_space [] = [[]]"
| "split_space (c # cs) =
     (if c = CHR '' '' then [] # split_space cs
      else (case split_space cs of
              [] \<Rightarrow> [[c]]
            | p # ps \<Rightarrow> (c # p) # ps))"

text \<open>
  \<^verbatim>\<open>extractTokenFromHeader(authHeader?: string)\<close>: \<^verbatim>\<open>!authHeader\<close> holds for an absent
  header and for the empty string.
\<close>

definition extractTokenFromHeader :: "string option \<Rightarrow> string option" where
  "extractTokenFromHeader authHeader =
     (case authHeader of
        None \<Rightarrow> None
      | Some h \<Rightarrow>
          if h = [] then None
          else
            let parts = split_space h
            in if length parts \<noteq> 2 \<or> parts ! 0 \<noteq> ''Bearer'' then None
               else Some (parts ! 1))"

section \<open>Agencies (models/Agency)\<close>

text \<open>
  \<^verbatim>\<open>AGENCY_STATUS\<close> and the fields of an agency document that the request gate reads.
  A collection is the list of its documents; \<^verbatim>\<open>findOne\<close> gives the first document that
  matches the filter, or null.
\<close>

datatype agency_status = ACTIVE | INACTIVE | SUSPENDED

record Agency =
  agency_id :: string
  clientId :: string
  subdomain :: string
  status :: agency_status

definition findOne :: "(Agency \<Rightarrow> bool) \<Rightarrow> Agency list \<Rightarrow> Agency option" where
  "findOne matches db = find matches db"

definition isActive :: "Agency \<Rightarrow> bool" where
  "isActive a = (status a = ACTIVE)"

text \<open>
  The schema declares \<^verbatim>\<open>subdomain\<close> with \<^verbatim>\<open>lowercase: true, trim: true\<close>. Mongoose runs
  these setters on the value of a query filter as well, so a lookup compares the
  lower-cased, trimmed value. Strings are bytes here: \<open>toLowerCase\<close> maps the letters
  \<^verbatim>\<open>A\<close> to \<^verbatim>\<open>Z\<close> and \<open>trim\<close> strips space, tab, line feed, vertical tab, form feed and
  carriage return from both ends.
\<close>

definition toLowerChar :: "char \<Rightarrow> char" where
  "toLowerChar c =
     (case map_of (zip ''ABCDEFGHIJKLMNOPQRSTUVWXYZ'' ''abcdefghijklmnopqrstuvwxyz'') c of
        None \<Rightarrow> c
      | Some l \<Rightarrow> l)"

definition toLowerCase :: "string \<Rightarrow> string" where
  "toLowerCase s = map toLowerChar s"

definition isWhitespace :: "char \<Rightarrow> bool" where
  "isWhitespace c =
     (c \<in> set [CHR '' '', CHR 0x09, CHR 0x0A, CHR 0x0B, CHR 0x0C, CHR 0x0D])"

definition trim :: "string \<Rightarrow> string" where
  "trim s = rev (dropWhile isWhitespace (rev (dropWhile isWhitespace s)))"



text \<open>
  \<^verbatim>\<open>Agency.findById(id)\<close>. An undefined id matches nothing. A string that cannot be cast
  to an ObjectId makes the query throw a \<^verbatim>\<open>CastError\<close>; which strings can be cast is
  decided by mongoose, so the test is the parameter \<open>isObjectId\<close>.
\<close>

definition findById ::
  "(string \<Rightarrow> bool) \<Rightarrow> Agency list \<Rightarrow> string option \<Rightarrow> app_error + Agency option" where
  "findById isObjectId db ident =
     (case ident of
        None \<Rightarrow> Inr None
      | Some i \<Rightarrow>
          if \<not> isObjectId i then Inl (CastError i)
          else Inr (findOne (\<lambda>a. agency_id a = i) db))"

section \<open>Request gate (middleware/auth)\<close>

text \<open>
  The parts of an Express request the middleware reads or sets: \<^verbatim>\<open>req.user\<close>,
  \<^verbatim>\<open>req.agency\<close>, \<^verbatim>\<open>req.params\<close> and \<^verbatim>\<open>req.route.path\<close>. A middleware either calls
  \<^verbatim>\<open>next()\<close> (\<open>Inr\<close>, with the request as it leaves it) or \<^verbatim>\<open>next(error)\<close> (\<open>Inl\<close>).
\<close>

record request =
  user :: "TokenPayload option"
  agency :: "Agency option"
  params :: "string \<Rightarrow> string option"
  route_path :: string

text \<open>\<^verbatim>\<open>s.includes(sub)\<close> on strings, and \<^verbatim>\<open>xs.join(sep)\<close>.\<close>

fun includes_str :: "string \<Rightarrow> string \<Rightarrow> bool" where
  "includes_str [] sub = (sub = [])"
| "includes_str (c # cs) sub = (take (length sub) (c # cs) = sub \<or> includes_str cs sub)"

fun join :: "string \<Rightarrow> string list \<Rightarrow> string" where
  "join sep [] = []"
| "join sep [x] = x"
| "join sep (x # y # ys) = x @ sep @ join sep (y # ys)"

text \<open>
  \<^verbatim>\<open>requirePermission(permission)\<close>: \<^verbatim>\<open>!req.user.permissions\<close> holds exactly when the
  claim is absent (an empty array is truthy).
\<close>

definition requirePermission :: "string \<Rightarrow> request \<Rightarrow> app_error + request" where
  "requirePermission permission req =
     (case user req of
        None \<Rightarrow> Inl (unauthorizedError ''Authentication required'')
      | Some u \<Rightarrow>
          if tp_permissions u = None \<or> permission \<notin> set (the (tp_permissions u))
          then Inl (forbiddenError (''Permission required: '' @ permission))
          else Inr req)"

text \<open>
  \<^verbatim>\<open>requirePermissions(permissions)\<close>: \<^verbatim>\<open>req.user?.permissions?.includes(permission)\<close> is
  undefined, hence falsy, when the claim is absent.
\<close>

definition requirePermissions :: "string list \<Rightarrow> request \<Rightarrow> app_error + request" where
  "requirePermissions perms req =
     (case user req of
        None \<Rightarrow> Inl (unauthorizedError ''Authentication required'')
      | Some u \<Rightarrow>
          let hasAllPermissions =
                list_all (\<lambda>permission.
                   case tp_permissions u of
                     None \<Rightarrow> False
                   | Some ps \<Rightarrow> permission \<in> set ps) perms
          in if \<not> hasAllPermissions
             then Inl (forbiddenError (''Permissions required: '' @ join '', '' perms))
             else Inr req)"


text \<open>
  \<^verbatim>\<open>requireResourceOwnership(resourceParam)\<close>. The three steps follow the source: the
  super-admin return, the client check (only on routes whose path includes
  \<^verbatim>\<open>agencies\<close>), then the agency check, entered when \<^verbatim>\<open>req.user.agencyId\<close> is truthy
  (present and not empty), with
  \<^verbatim>\<open>resourceAgencyId = req.params.agencyId || req.user.agencyId\<close>. An error thrown by the
  agency lookup is caught and handed to \<^verbatim>\<open>next\<close> like the others.
\<close>

definition truthy :: "string option \<Rightarrow> bool" where
  "truthy v = (case v of None \<Rightarrow> False | Some s \<Rightarrow> s \<noteq> [])"

definition resourceAgencyId :: "request \<Rightarrow> TokenPayload \<Rightarrow> string option" where
  "resourceAgencyId req u =
     (if truthy (params req ''agencyId'') then params req ''agencyId'' else tp_agencyId u)"

definition clientCheck ::
  "(string \<Rightarrow> bool) \<Rightarrow> string \<Rightarrow> Agency list \<Rightarrow> request \<Rightarrow> TokenPayload \<Rightarrow> app_error option" where
  "clientCheck isObjectId resourceParam db req u =
     (if tp_role u = Some CLIENT then
        let resourceId = params req resourceParam
        in if includes_str (route_path req) ''agencies'' then
             (case findById isObjectId db resourceId of
                Inl thrown \<Rightarrow> Some thrown
              | Inr None \<Rightarrow> Some (forbiddenError ''Access denied to this resource'')
              | Inr (Some a) \<Rightarrow>
                  if Some (clientId a) \<noteq> tp_userId u
                  then Some (forbiddenError ''Access denied to this resource'')
                  else None)
           else None
      else None)"

definition requireResourceOwnership ::
  "(string \<Rightarrow> bool) \<Rightarrow> string \<Rightarrow> Agency list \<Rightarrow> request \<Rightarrow> app_error + request" where
  "requireResourceOwnership isObjectId resourceParam db req =
     (case user req of
        None \<Rightarrow> Inl (unauthorizedError ''Authentication required'')
      | Some u \<Rightarrow>
          if tp_role u = Some SUPER_ADMIN then Inr req
          else (case clientCheck isObjectId resourceParam db req u of
                  Some err \<Rightarrow> Inl err
                | None \<Rightarrow>
                    if truthy (tp_agencyId u) then
                      if resourceAgencyId req u \<noteq> tp_agencyId u
                      then Inl (forbiddenError ''Access denied to this agency resource'')
                      else Inr req
                    else Inr req))"

section \<open>Rate limiting (middleware/rateLimiter)\<close>

text \<open>
  The options object handed to \<^verbatim>\<open>rateLimit\<close>; \<^verbatim>\<open>max\<close> is named \<open>max_requests\<close> here.
  No \<^verbatim>\<open>keyGenerator\<close> is given for the auth limiter, so the key is the request's IP.
\<close>

record RateLimitOptions =
  windowMs :: nat
  max_requests :: nat
  skipSuccessfulRequests :: bool

definition authRateLimiter :: RateLimitOptions where
  "authRateLimiter =
     \<lparr>windowMs = 15 * 60 * 1000, max_requests = 5, skipSuccessfulRequests = True\<rparr>"

text \<open>
  Modelled from the spec: the counting done by \<^verbatim>\<open>rateLimit\<close> itself, which is the
  express-rate-limit package and not part of the repository's sources. The spec's
  \<^verbatim>\<open>RateWindow: {key, windowStart, count}\<close> is "keyed by IP" and "reset when the window
  elapses"; a request over the cap gets the uniform rejection (status 429); the auth
  policy "does not count successful attempts". A response is successful when its status
  is below 400. Times are milliseconds.
\<close>

record RateWindow =
  windowStart :: nat
  count :: nat

type_synonym rate_store = "string \<Rightarrow> RateWindow option"

definition currentWindow :: "RateLimitOptions \<Rightarrow> rate_store \<Rightarrow> string \<Rightarrow> nat \<Rightarrow> RateWindow" where
  "currentWindow opts store key now =
     (case store key of
        None \<Rightarrow> \<lparr>windowStart = now, count = 0\<rparr>
      | Some w \<Rightarrow>
          if now < windowStart w + windowMs opts then w
          else \<lparr>windowStart = now, count = 0\<rparr>)"

text \<open>
  Modelled from the spec: one login attempt through the limiter. The request is counted
  on arrival; over the cap it is answered 429 and stays counted; otherwise the handler
  answers with \<open>handlerStatus\<close>, and a successful answer is taken out of the count again
  when successful requests are skipped.
\<close>

definition attempt ::
  "RateLimitOptions \<Rightarrow> rate_store \<Rightarrow> string \<Rightarrow> nat \<Rightarrow> nat \<Rightarrow> nat \<times> rate_store" where
  "attempt opts store key now handlerStatus =
     (let w = currentWindow opts store key now;
          counted = w\<lparr>count := count w + 1\<rparr>
      in if max_requests opts < count counted then (429, store(key \<mapsto> counted))
         else if skipSuccessfulRequests opts \<and> handlerStatus < 400
           then (handlerStatus, store(key \<mapsto> w))
         else (handlerStatus, store(key \<mapsto> counted)))"

text \<open>
  Modelled from the spec: a sequence of attempts \<open>(key, time, handlerStatus)\<close>, one after
  the other, and the statuses they are answered with.
\<close>

fun attempts ::
  "RateLimitOptions \<Rightarrow> rate_store \<Rightarrow> (string \<times> nat \<times> nat) list \<Rightarrow> nat list \<times> rate_store" where
  "attempts opts store [] = ([], store)"
| "attempts opts store ((key, now, handlerStatus) # rest) =
     (let (answered, store') = attempt opts store key now handlerStatus;
          (others, store'') = attempts opts store' rest
      in (answered # others, store''))"

section \<open>Example data\<close>

definition example_env :: env where
  "example_env = default_env ''server-secret''"

definition example_payload :: JWTPayload where
  "example_payload =
     \<lparr>userId = ''u1'', email = ''ann@example.org'', role = ''viewer'',
      agencyId = Some ''agency-7'', permissions = [''view_analytics'']\<rparr>"

definition example_reset_token :: token where
  "example_reset_token =
     Jwt ''server-secret''
       \<lparr>tp_userId = Some ''u1'', tp_email = Some ''ann@example.org'', tp_role = None,
        tp_agencyId = None, tp_permissions = None, tp_type = Some ''password_reset'',
        tp_iss = Some ''study-abroad-saas'', tp_aud = [''password-reset''],
        tp_iat = Some 0, tp_nbf = None, tp_exp = Some 3600\<rparr>"

definition example_expired_claims :: TokenPayload where
  "example_expired_claims =
     \<lparr>tp_userId = Some ''u1'', tp_email = Some ''ann@example.org'', tp_role = Some ''viewer'',
      tp_agencyId = None, tp_permissions = Some [], tp_type = Some ''access'',
      tp_iss = Some ''study-abroad-saas'', tp_aud = [''saas-users''],
      tp_iat = Some 0, tp_nbf = None, tp_exp = Some 50\<rparr>"

definition example_agencies :: "Agency list" where
  "example_agencies =
     [\<lparr>agency_id = ''64b0000000000000000000a1'', clientId = ''64c0000000000000000000c1'',
       subdomain = ''oxford'', status = SUSPENDED\<rparr>,
      \<lparr>agency_id = ''64b0000000000000000000a2'', clientId = ''64c0000000000000000000c1'',
       subdomain = ''paris'', status = ACTIVE\<rparr>,
      \<lparr>agency_id = ''64b0000000000000000000a3'', clientId = ''64c0000000000000000000c2'',
       subdomain = ''berlin'', status = INACTIVE\<rparr>]"

text \<open>The usual form of an ObjectId string: 24 hexadecimal digits.\<close>

definition hex24 :: "string \<Rightarrow> bool" where
  "hex24 s = (length s = 24 \<and> list_all (\<lambda>c. c \<in> set ''0123456789abcdefABCDEF'') s)"

text \<open>An editor of the second agency, a client who owns the first two, a super admin.\<close>

definition example_editor :: TokenPayload where
  "example_editor =
     no_claims\<lparr>tp_userId := Some ''64d0000000000000000000e1'', tp_role := Some ''editor'',
               tp_agencyId := Some ''64b0000000000000000000a2'',
               tp_permissions := Some [''manage_content'']\<rparr>"

definition example_client :: TokenPayload where
  "example_client =
     no_claims\<lparr>tp_userId := Some ''64c0000000000000000000c1'', tp_role := Some ''client'',
               tp_agencyId := Some ''64b0000000000000000000a2'',
               tp_permissions := Some []\<rparr>"

definition example_super_admin :: TokenPayload where
  "example_super_admin =
     no_claims\<lparr>tp_userId := Some ''64e0000000000000000000f1'', tp_role := Some ''super_admin'',
               tp_permissions := Some [''manage_agencies'']\<rparr>"

definition example_request :: request where
  "example_request =
     \<lparr>user = None, agency = None, params = Map.empty, route_path = ''/students''\<rparr>"

definition example_viewer :: TokenPayload where
  "example_viewer =
     no_claims\<lparr>tp_userId := Some ''u1'', tp_role := Some ''viewer'',
               tp_agencyId := Some ''agency-7'', tp_permissions := Some [''view_analytics'']\<rparr>"

section \<open>Tokens: what is issued\<close>

lemma generateAccessToken_eq:
  "generateAccessToken e now p =
     (case JWT_EXPIRES_IN e of
        None \<Rightarrow> Inl (Error ''Failed to generate access token'')
      | Some span \<Rightarrow>
          Inr (Jwt (JWT_SECRET e)
            \<lparr>tp_userId = Some (userId p), tp_email = Some (email p), tp_role = Some (role p),
             tp_agencyId = agencyId p, tp_permissions = Some (permissions p),
             tp_type = Some ''access'', tp_iss = Some ''study-abroad-saas'',
             tp_aud = [''saas-users''], tp_iat = Some now, tp_nbf = None,
             tp_exp = Some (now + span)\<rparr>))"
  by (simp add: generateAccessToken_def accessClaims_def no_claims_def jwt_sign_def
        split: option.splits)

lemma generateRefreshToken_eq:
  "generateRefreshToken e now p =
     (case JWT_REFRESH_EXPIRES_IN e of
        None \<Rightarrow> Inl (Error ''Failed to generate refresh token'')
      | Some span \<Rightarrow>
          Inr (Jwt (JWT_SECRET e)
            \<lparr>tp_userId = Some (userId p), tp_email = Some (email p), tp_role = Some (role p),
             tp_agencyId = None, tp_permissions = None, tp_type = Some ''refresh'',
             tp_iss = Some ''study-abroad-saas'', tp_aud = [''saas-users''],
             tp_iat = Some now, tp_nbf = None, tp_exp = Some (now + span)\<rparr>))"
  by (simp add: generateRefreshToken_def refreshClaims_def no_claims_def jwt_sign_def
        split: option.splits)

lemma generatePasswordResetToken_eq:
  "generatePasswordResetToken e now uid mail =
     Inr (Jwt (JWT_SECRET e)
       \<lparr>tp_userId = Some uid, tp_email = Some mail, tp_role = None, tp_agencyId = None,
        tp_permissions = None, tp_type = Some ''password_reset'',
        tp_iss = Some ''study-abroad-saas'', tp_aud = [''password-reset''],
        tp_iat = Some now, tp_nbf = None, tp_exp = Some (now + 3600)\<rparr>)"
  by (simp add: generatePasswordResetToken_def passwordResetClaims_def no_claims_def
        jwt_sign_def)

lemma generateRefreshToken_base:
  "generateRefreshToken e now
     \<lparr>userId = userId p, email = email p, role = role p, agencyId = agencyId p\<rparr>
   = generateRefreshToken e now p"
  by (simp add: generateRefreshToken_def refreshClaims_def)

lemma generateTokens_eq:
  "generateTokens e now p =
     (case generateAccessToken e now p of
        Inl err \<Rightarrow> Inl err
      | Inr a \<Rightarrow> (case generateRefreshToken e now p of
                    Inl err \<Rightarrow> Inl err
                  | Inr r \<Rightarrow> Inr (a, r)))"
  unfolding generateTokens_def generateRefreshToken_base by (rule refl)

lemma example_env_simps:
  "JWT_SECRET example_env = ''server-secret''"
  "JWT_EXPIRES_IN example_env = Some 604800"
  "JWT_REFRESH_EXPIRES_IN example_env = Some 2592000"
  by (simp_all add: example_env_def default_env_def)

section \<open>Tokens: what the verifiers answer\<close>

lemma verifyToken_good:
  assumes "tp_nbf c = None" and "tp_exp c = Some x" and "now < x"
    and "tp_aud c = [''saas-users'']" and "tp_iss c = Some ''study-abroad-saas''"
  shows "verifyToken e now (Jwt (JWT_SECRET e) c) = Inr c"
  using assms by (simp add: verifyToken_def jwt_verify_def)

lemma verifyToken_expired:
  assumes "tp_exp c = Some x" and "x \<le> now" and "\<forall>n. tp_nbf c = Some n \<longrightarrow> n \<le> now"
  shows "verifyToken e now (Jwt (JWT_SECRET e) c) = Inl (Error ''Token expired'')"
  using assms by (auto simp add: verifyToken_def jwt_verify_def split: option.splits)

lemma verifyToken_wrong_secret:
  "k \<noteq> JWT_SECRET e \<Longrightarrow> verifyToken e now (Jwt k c) = Inl (Error ''Invalid token'')"
  by (simp add: verifyToken_def jwt_verify_def)

lemma verifyToken_wrong_audience:
  assumes "tp_nbf c = None" and "tp_exp c = Some x" and "''saas-users'' \<notin> set (tp_aud c)"
  shows "verifyToken e now (Jwt (JWT_SECRET e) c)
           = Inl (Error (if now < x then ''Invalid token'' else ''Token expired''))"
  using assms by (simp add: verifyToken_def jwt_verify_def)

lemma verifyToken_any_wrong_audience:
  assumes "''saas-users'' \<notin> set (tp_aud c)"
  shows "verifyToken e now (Jwt k c) = Inl (Error ''Invalid token'')
         \<or> verifyToken e now (Jwt k c) = Inl (Error ''Token expired'')"
  using assms by (simp add: verifyToken_def jwt_verify_def)

lemma verifyPasswordResetToken_wrong_audience:
  assumes "tp_nbf c = None" and "tp_exp c = Some x" and "''password-reset'' \<notin> set (tp_aud c)"
  shows "verifyPasswordResetToken e now (Jwt (JWT_SECRET e) c)
           = Inl (Error (if now < x then ''Invalid password reset token''
                         else ''Password reset token expired''))"
  using assms by (simp add: verifyPasswordResetToken_def jwt_verify_def)

lemma verifyPasswordResetToken_any_wrong_audience:
  assumes "''password-reset'' \<notin> set (tp_aud c)"
  shows "\<exists>m. verifyPasswordResetToken e now (Jwt k c) = Inl (Error m)"
  using assms by (simp add: verifyPasswordResetToken_def jwt_verify_def)

text \<open>
  Claim C1. An access token issued for a payload \<open>p\<close> and verified before it expires is
  accepted by \<open>verifyToken\<close>, and the decoded object agrees with \<open>p\<close> on \<^verbatim>\<open>userId\<close>,
  \<^verbatim>\<open>email\<close>, \<^verbatim>\<open>role\<close>, \<^verbatim>\<open>agencyId\<close> and \<^verbatim>\<open>permissions\<close>; what is added is the type tag, the
  issuer and audience, and the timing claims \<^verbatim>\<open>iat\<close> and \<^verbatim>\<open>exp\<close>.
\<close>

theorem access_token_roundtrip:
  assumes "JWT_EXPIRES_IN e = Some span" and "now' < now + span"
  shows "\<exists>t d. generateAccessToken e now p = Inr t \<and> verifyToken e now' t = Inr d
           \<and> tp_userId d = Some (userId p) \<and> tp_email d = Some (email p)
           \<and> tp_role d = Some (role p) \<and> tp_agencyId d = agencyId p
           \<and> tp_permissions d = Some (permissions p)
           \<and> tp_type d = Some ''access''
           \<and> tp_iss d = Some ''study-abroad-saas'' \<and> tp_aud d = [''saas-users'']
           \<and> tp_nbf d = None
           \<and> tp_iat d = Some now \<and> tp_exp d = Some (now + span)"
proof -
  let ?c = "\<lparr>tp_userId = Some (userId p), tp_email = Some (email p), tp_role = Some (role p),
             tp_agencyId = agencyId p, tp_permissions = Some (permissions p),
             tp_type = Some ''access'', tp_iss = Some ''study-abroad-saas'',
             tp_aud = [''saas-users''], tp_iat = Some now, tp_nbf = None,
             tp_exp = Some (now + span)\<rparr>"
  have issued: "generateAccessToken e now p = Inr (Jwt (JWT_SECRET e) ?c)"
    using assms(1) by (simp add: generateAccessToken_eq)
  have accepted: "verifyToken e now' (Jwt (JWT_SECRET e) ?c) = Inr ?c"
    using assms(2) by (intro verifyToken_good [where x = "now + span"]) simp_all
  from issued accepted show ?thesis by simp
qed

theorem access_token_roundtrip_witness:
  "JWT_EXPIRES_IN example_env = Some 604800 \<and> (10::int) < 0 + 604800
   \<and> (\<exists>t d. generateAccessToken example_env 0 example_payload = Inr t
        \<and> verifyToken example_env 10 t = Inr d
        \<and> tp_userId d = Some ''u1'' \<and> tp_permissions d = Some [''view_analytics'']
        \<and> tp_agencyId d = Some ''agency-7'')"
proof -
  have a: "JWT_EXPIRES_IN example_env = Some 604800"
    by (simp add: example_env_simps)
  have b: "(10::int) < 0 + 604800" by simp
  from access_token_roundtrip [OF a b, of example_payload]
  obtain t d where "generateAccessToken example_env 0 example_payload = Inr t"
    and "verifyToken example_env 10 t = Inr d"
    and "tp_userId d = Some (userId example_payload)"
    and "tp_permissions d = Some (permissions example_payload)"
    and "tp_agencyId d = agencyId example_payload"
    by blast
  then show ?thesis using a b by (auto simp add: example_payload_def)
qed

text \<open>
  Claim C3. The object that \<open>generateRefreshToken\<close> hands to the signer holds exactly
  \<^verbatim>\<open>userId\<close>, \<^verbatim>\<open>email\<close>, \<^verbatim>\<open>role\<close> and \<^verbatim>\<open>type = "refresh"\<close>; the signed token adds only the
  claims set from the signing options (\<^verbatim>\<open>iat\<close>, \<^verbatim>\<open>exp\<close>, \<^verbatim>\<open>iss\<close>, \<^verbatim>\<open>aud\<close>), so it has no
  \<^verbatim>\<open>permissions\<close> claim at all. The refresh half of \<open>generateTokens\<close> is that same token,
  also for a payload that carries permissions.
\<close>

theorem refresh_token_has_no_permissions:
  "refreshClaims p =
     \<lparr>tp_userId = Some (userId p), tp_email = Some (email p), tp_role = Some (role p),
      tp_agencyId = None, tp_permissions = None, tp_type = Some ''refresh'',
      tp_iss = None, tp_aud = [], tp_iat = None, tp_nbf = None, tp_exp = None\<rparr>
   \<and> generateRefreshToken e now p =
     (case JWT_REFRESH_EXPIRES_IN e of
        None \<Rightarrow> Inl (Error ''Failed to generate refresh token'')
      | Some span \<Rightarrow>
          Inr (Jwt (JWT_SECRET e)
            \<lparr>tp_userId = Some (userId p), tp_email = Some (email p), tp_role = Some (role p),
             tp_agencyId = None, tp_permissions = None, tp_type = Some ''refresh'',
             tp_iss = Some ''study-abroad-saas'', tp_aud = [''saas-users''],
             tp_iat = Some now, tp_nbf = None, tp_exp = Some (now + span)\<rparr>))
   \<and> map_sum id snd (generateTokens e now q) =
     (case JWT_EXPIRES_IN e of
        None \<Rightarrow> Inl (Error ''Failed to generate access token'')
      | Some aspan \<Rightarrow> generateRefreshToken e now q)"
proof (intro conjI)
  show "refreshClaims p =
     \<lparr>tp_userId = Some (userId p), tp_email = Some (email p), tp_role = Some (role p),
      tp_agencyId = None, tp_permissions = None, tp_type = Some ''refresh'',
      tp_iss = None, tp_aud = [], tp_iat = None, tp_nbf = None, tp_exp = None\<rparr>"
    by (simp add: refreshClaims_def no_claims_def)
  show "generateRefreshToken e now p =
     (case JWT_REFRESH_EXPIRES_IN e of
        None \<Rightarrow> Inl (Error ''Failed to generate refresh token'')
      | Some span \<Rightarrow>
          Inr (Jwt (JWT_SECRET e)
            \<lparr>tp_userId = Some (userId p), tp_email = Some (email p), tp_role = Some (role p),
             tp_agencyId = None, tp_permissions = None, tp_type = Some ''refresh'',
             tp_iss = Some ''study-abroad-saas'', tp_aud = [''saas-users''],
             tp_iat = Some now, tp_nbf = None, tp_exp = Some (now + span)\<rparr>))"
    by (rule generateRefreshToken_eq)
  show "map_sum id snd (generateTokens e now q) =
     (case JWT_EXPIRES_IN e of
        None \<Rightarrow> Inl (Error ''Failed to generate access token'')
      | Some aspan \<Rightarrow> generateRefreshToken e now q)"
    by (simp add: generateTokens_eq generateAccessToken_eq split: option.splits sum.splits)
qed

theorem refresh_token_has_no_permissions_witness:
  "generateRefreshToken example_env 0 example_payload =
     Inr (Jwt ''server-secret''
       \<lparr>tp_userId = Some ''u1'', tp_email = Some ''ann@example.org'', tp_role = Some ''viewer'',
        tp_agencyId = None, tp_permissions = None, tp_type = Some ''refresh'',
        tp_iss = Some ''study-abroad-saas'', tp_aud = [''saas-users''],
        tp_iat = Some 0, tp_nbf = None, tp_exp = Some 2592000\<rparr>)
   \<and> map_sum id snd (generateTokens example_env 0 example_payload)
       = generateRefreshToken example_env 0 example_payload"
  using refresh_token_has_no_permissions [of example_payload example_env 0 example_payload]
  by (simp add: example_env_simps example_payload_def)

text \<open>
  Claim C10. \<open>generateTokens\<close> passes \<^verbatim>\<open>agencyId\<close> on to \<open>generateRefreshToken\<close>, which
  does not sign it: whatever agency the payload names, the access token carries it and
  the refresh token does not, and what \<open>verifyToken\<close> decodes from the refresh token has
  no \<^verbatim>\<open>agencyId\<close>.
\<close>

theorem refresh_token_drops_agency:
  assumes "JWT_EXPIRES_IN e = Some aspan" and "JWT_REFRESH_EXPIRES_IN e = Some rspan"
  shows "\<exists>a r. generateTokens e now p = Inr (a, r)
           \<and> tp_agencyId (claims a) = agencyId p
           \<and> tp_agencyId (claims r) = None
           \<and> (now' < now + rspan \<longrightarrow>
                (\<exists>d. verifyToken e now' r = Inr d \<and> tp_agencyId d = None
                    \<and> tp_userId d = Some (userId p)))"
proof -
  let ?r = "\<lparr>tp_userId = Some (userId p), tp_email = Some (email p), tp_role = Some (role p),
             tp_agencyId = None, tp_permissions = None, tp_type = Some ''refresh'',
             tp_iss = Some ''study-abroad-saas'', tp_aud = [''saas-users''],
             tp_iat = Some now, tp_nbf = None, tp_exp = Some (now + rspan)\<rparr>"
  obtain a where a: "generateAccessToken e now p = Inr a" "tp_agencyId (claims a) = agencyId p"
    using assms(1) by (simp add: generateAccessToken_eq)
  have r: "generateRefreshToken e now p = Inr (Jwt (JWT_SECRET e) ?r)"
    using assms(2) by (simp add: generateRefreshToken_eq)
  have pair: "generateTokens e now p = Inr (a, Jwt (JWT_SECRET e) ?r)"
    using a(1) r by (simp add: generateTokens_eq)
  have decoded: "now' < now + rspan \<Longrightarrow> verifyToken e now' (Jwt (JWT_SECRET e) ?r) = Inr ?r"
    by (intro verifyToken_good [where x = "now + rspan"]) simp_all
  from pair a(2) decoded show ?thesis by auto
qed

theorem refresh_token_drops_agency_witness:
  "agencyId example_payload = Some ''agency-7''
   \<and> (\<exists>a r. generateTokens example_env 0 example_payload = Inr (a, r)
         \<and> tp_agencyId (claims a) = Some ''agency-7''
         \<and> tp_agencyId (claims r) = None
         \<and> (\<exists>d. verifyToken example_env 5 r = Inr d \<and> tp_agencyId d = None))"
proof -
  have a: "JWT_EXPIRES_IN example_env = Some 604800"
    and b: "JWT_REFRESH_EXPIRES_IN example_env = Some 2592000"
    by (simp_all add: example_env_simps)
  from refresh_token_drops_agency [OF a b, of 0 example_payload 5]
  show ?thesis by (auto simp add: example_payload_def)
qed

text \<open>
  Claim C4, as amended. A password-reset token presented to \<open>verifyToken\<close> always fails,
  and so does every token whose audience is not the session audience; the error is the
  same \<^verbatim>\<open>Invalid token\<close> that a bad signature gets while the token is unexpired, and
  \<^verbatim>\<open>Token expired\<close> afterwards. Symmetrically an access or a refresh token presented to
  \<open>verifyPasswordResetToken\<close> always fails, with \<^verbatim>\<open>Invalid password reset token\<close> or
  \<^verbatim>\<open>Password reset token expired\<close>.
\<close>

theorem cross_audience_tokens_rejected:
  "(\<exists>rt. generatePasswordResetToken e now uid mail = Inr rt
       \<and> verifyToken e now' rt =
           Inl (Error (if now' < now + 3600 then ''Invalid token'' else ''Token expired'')))
   \<and> (''saas-users'' \<notin> set (tp_aud c) \<longrightarrow>
        verifyToken e now' (Jwt k c) = Inl (Error ''Invalid token'')
        \<or> verifyToken e now' (Jwt k c) = Inl (Error ''Token expired''))
   \<and> (JWT_EXPIRES_IN e = Some aspan \<longrightarrow>
        (\<exists>at. generateAccessToken e now p = Inr at
           \<and> verifyPasswordResetToken e now' at =
               Inl (Error (if now' < now + aspan then ''Invalid password reset token''
                           else ''Password reset token expired''))))
   \<and> (JWT_REFRESH_EXPIRES_IN e = Some rspan \<longrightarrow>
        (\<exists>ft. generateRefreshToken e now p = Inr ft
           \<and> verifyPasswordResetToken e now' ft =
               Inl (Error (if now' < now + rspan then ''Invalid password reset token''
                           else ''Password reset token expired''))))
   \<and> (''password-reset'' \<notin> set (tp_aud c) \<longrightarrow>
        (\<exists>m. verifyPasswordResetToken e now' (Jwt k c) = Inl (Error m)))"
proof (intro conjI impI)
  show "\<exists>rt. generatePasswordResetToken e now uid mail = Inr rt
       \<and> verifyToken e now' rt =
           Inl (Error (if now' < now + 3600 then ''Invalid token'' else ''Token expired''))"
    by (simp add: generatePasswordResetToken_eq verifyToken_wrong_audience)
next
  assume "''saas-users'' \<notin> set (tp_aud c)"
  then show "verifyToken e now' (Jwt k c) = Inl (Error ''Invalid token'')
        \<or> verifyToken e now' (Jwt k c) = Inl (Error ''Token expired'')"
    by (rule verifyToken_any_wrong_audience)
next
  assume "JWT_EXPIRES_IN e = Some aspan"
  then show "\<exists>at. generateAccessToken e now p = Inr at
           \<and> verifyPasswordResetToken e now' at =
               Inl (Error (if now' < now + aspan then ''Invalid password reset token''
                           else ''Password reset token expired''))"
    by (simp add: generateAccessToken_eq verifyPasswordResetToken_wrong_audience)
next
  assume "JWT_REFRESH_EXPIRES_IN e = Some rspan"
  then show "\<exists>ft. generateRefreshToken e now p = Inr ft
           \<and> verifyPasswordResetToken e now' ft =
               Inl (Error (if now' < now + rspan then ''Invalid password reset token''
                           else ''Password reset token expired''))"
    by (simp add: generateRefreshToken_eq verifyPasswordResetToken_wrong_audience)
next
  assume "''password-reset'' \<notin> set (tp_aud c)"
  then show "\<exists>m. verifyPasswordResetToken e now' (Jwt k c) = Inl (Error m)"
    by (rule verifyPasswordResetToken_any_wrong_audience)
qed

theorem cross_audience_tokens_rejected_witness:
  "verifyToken example_env 4000 example_reset_token = Inl (Error ''Token expired'')
   \<and> (\<exists>at. generateAccessToken example_env 0 example_payload = Inr at
         \<and> verifyPasswordResetToken example_env 10 at
             = Inl (Error ''Invalid password reset token''))
   \<and> (\<exists>ft. generateRefreshToken example_env 0 example_payload = Inr ft
         \<and> verifyPasswordResetToken example_env 10 ft
             = Inl (Error ''Invalid password reset token''))
   \<and> (\<exists>m. verifyPasswordResetToken example_env 10 (Jwt ''server-secret'' example_expired_claims)
             = Inl (Error m))"
proof -
  have gen: "generatePasswordResetToken example_env 0 ''u1'' ''ann@example.org''
               = Inr example_reset_token"
    by (simp add: generatePasswordResetToken_eq example_env_simps example_reset_token_def)
  have aud: "''saas-users'' \<notin> set (tp_aud (claims example_reset_token))"
    and aud': "''password-reset'' \<notin> set (tp_aud example_expired_claims)"
    by (simp_all add: example_reset_token_def example_expired_claims_def)
  from cross_audience_tokens_rejected
         [of example_env 0 "''u1''" "''ann@example.org''" 4000 example_expired_claims
             "''server-secret''" 604800 example_payload 2592000]
  have "verifyToken example_env 4000 example_reset_token = Inl (Error ''Token expired'')"
    using gen by simp
  moreover
  from cross_audience_tokens_rejected
         [of example_env 0 "''u1''" "''ann@example.org''" 10 example_expired_claims
             "''server-secret''" 604800 example_payload 2592000]
  have "(\<exists>at. generateAccessToken example_env 0 example_payload = Inr at
         \<and> verifyPasswordResetToken example_env 10 at
             = Inl (Error ''Invalid password reset token''))
   \<and> (\<exists>ft. generateRefreshToken example_env 0 example_payload = Inr ft
         \<and> verifyPasswordResetToken example_env 10 ft
             = Inl (Error ''Invalid password reset token''))
   \<and> (\<exists>m. verifyPasswordResetToken example_env 10 (Jwt ''server-secret'' example_expired_claims)
             = Inl (Error m))"
    using aud' by (simp add: example_env_simps)
  ultimately show ?thesis by simp
qed

text \<open>
  The claim as stated fails: the error a password-reset token gets from \<open>verifyToken\<close>
  is the very error a string that is no token at all gets, and the one a token signed
  with another secret gets.
\<close>

theorem reset_token_error_not_distinct:
  "generatePasswordResetToken example_env 0 ''u1'' ''ann@example.org'' = Inr example_reset_token
   \<and> verifyToken example_env 10 example_reset_token = Inl (Error ''Invalid token'')
   \<and> verifyToken example_env 10 (Malformed ''not-a-token'') = Inl (Error ''Invalid token'')
   \<and> verifyToken example_env 10 (Jwt ''other-secret'' example_expired_claims)
       = Inl (Error ''Invalid token'')"
  by (simp add: generatePasswordResetToken_eq example_env_simps example_reset_token_def
        verifyToken_def jwt_verify_def)

text \<open>
  Claim C5, as amended. A token signed with the server's secret whose \<^verbatim>\<open>exp\<close> has passed
  (and whose \<^verbatim>\<open>nbf\<close>, if any, has passed too) gets \<^verbatim>\<open>Token expired\<close> from \<open>verifyToken\<close>,
  whatever its audience and issuer; a token signed with a different secret gets
  \<^verbatim>\<open>Invalid token\<close>, expired or not.
\<close>

theorem expired_token_with_valid_signature:
  "(tp_exp c = Some x \<and> x \<le> now \<and> (\<forall>n. tp_nbf c = Some n \<longrightarrow> n \<le> now) \<longrightarrow>
      verifyToken e now (Jwt (JWT_SECRET e) c) = Inl (Error ''Token expired''))
   \<and> (k \<noteq> JWT_SECRET e \<longrightarrow> verifyToken e now (Jwt k c) = Inl (Error ''Invalid token''))"
  using verifyToken_expired [of c x now e] verifyToken_wrong_secret [of k e now c]
  by blast

theorem expired_token_with_valid_signature_witness:
  "tp_exp example_expired_claims = Some 50 \<and> (50::int) \<le> 100
   \<and> verifyToken example_env 100 (Jwt ''server-secret'' example_expired_claims)
       = Inl (Error ''Token expired'')
   \<and> ''other-secret'' \<noteq> JWT_SECRET example_env
   \<and> verifyToken example_env 10 (Jwt ''other-secret'' example_expired_claims)
       = Inl (Error ''Invalid token'')"
proof -
  have a: "tp_exp example_expired_claims = Some 50 \<and> (50::int) \<le> 100
           \<and> (\<forall>n. tp_nbf example_expired_claims = Some n \<longrightarrow> n \<le> 100)"
    by (simp add: example_expired_claims_def)
  have b: "''other-secret'' \<noteq> JWT_SECRET example_env"
    by (simp add: example_env_simps)
  from expired_token_with_valid_signature
         [of example_expired_claims 50 100 example_env "''other-secret''"] a
  have "verifyToken example_env 100 (Jwt ''server-secret'' example_expired_claims)
          = Inl (Error ''Token expired'')"
    by (simp add: example_env_simps)
  moreover
  from expired_token_with_valid_signature
         [of example_expired_claims 50 10 example_env "''other-secret''"] b
  have "verifyToken example_env 10 (Jwt ''other-secret'' example_expired_claims)
          = Inl (Error ''Invalid token'')"
    by simp
  ultimately show ?thesis using a b by simp
qed

text \<open>
  The claim as stated fails: a token that is both expired (\<^verbatim>\<open>exp = 50\<close>, clock \<open>100\<close>)
  and signed with a secret other than the server's gets \<^verbatim>\<open>Invalid token\<close>, because the
  signature is checked before the expiry.
\<close>

theorem expired_forged_token_is_invalid:
  "tp_exp example_expired_claims = Some 50
   \<and> JWT_SECRET example_env \<noteq> ''other-secret''
   \<and> verifyToken example_env 100 (Jwt ''other-secret'' example_expired_claims)
       = Inl (Error ''Invalid token'')
   \<and> verifyToken example_env 100 (Jwt ''other-secret'' example_expired_claims)
       \<noteq> Inl (Error ''Token expired'')"
  by (simp add: example_expired_claims_def example_env_simps verifyToken_def jwt_verify_def)

section \<open>The Authorization header\<close>

lemma split_space_not_Nil: "split_space s \<noteq> []"
  by (induction s) (auto split: list.splits)

lemma split_space_no_space: "CHR '' '' \<notin> set s \<Longrightarrow> split_space s = [s]"
  by (induction s) auto

lemma split_space_append:
  "CHR '' '' \<notin> set a \<Longrightarrow> split_space (a @ CHR '' '' # r) = a # split_space r"
  by (induction a) auto

lemma split_space_pieces: "p \<in> set (split_space s) \<Longrightarrow> CHR '' '' \<notin> set p"
  by (induction s arbitrary: p) (auto split: if_splits list.splits)

text \<open>Joining the pieces with single spaces gives the string back.\<close>

lemma join_split_space: "join '' '' (split_space s) = s"
proof (induction s)
  case Nil
  then show ?case by simp
next
  case (Cons c cs)
  show ?case
  proof (cases "c = CHR '' ''")
    case True
    with Cons show ?thesis
      using split_space_not_Nil [of cs] by (cases "split_space cs") auto
  next
    case False
    with Cons show ?thesis
      using split_space_not_Nil [of cs]
      by (cases "split_space cs"; cases "tl (split_space cs)") auto
  qed
qed

lemma split_space_two:
  "split_space s = [a, b]
     \<longleftrightarrow> s = a @ CHR '' '' # b \<and> CHR '' '' \<notin> set a \<and> CHR '' '' \<notin> set b"
proof
  assume h: "split_space s = [a, b]"
  have "s = join '' '' (split_space s)" by (simp add: join_split_space)
  with h have "s = a @ CHR '' '' # b" by simp
  moreover have "CHR '' '' \<notin> set a" "CHR '' '' \<notin> set b"
    using split_space_pieces [of a s] split_space_pieces [of b s] h by auto
  ultimately show "s = a @ CHR '' '' # b \<and> CHR '' '' \<notin> set a \<and> CHR '' '' \<notin> set b"
    by simp
next
  assume "s = a @ CHR '' '' # b \<and> CHR '' '' \<notin> set a \<and> CHR '' '' \<notin> set b"
  then show "split_space s = [a, b]"
    by (simp add: split_space_append split_space_no_space)
qed

lemma length_two: "length xs = 2 \<longleftrightarrow> (\<exists>a b. xs = [a, b])"
  by (cases xs; cases "tl xs") auto

text \<open>
  Claim C2. A header that is \<^verbatim>\<open>Bearer\<close>, one space, and a part \<open>t\<close> without spaces yields
  \<open>t\<close>; every other header value, and an absent header, yields null.
\<close>

theorem extract_bearer_token:
  "(CHR '' '' \<notin> set t \<longrightarrow> extractTokenFromHeader (Some (''Bearer'' @ '' '' @ t)) = Some t)
   \<and> ((\<forall>t. CHR '' '' \<notin> set t \<longrightarrow> h \<noteq> Some (''Bearer'' @ '' '' @ t)) \<longrightarrow>
        extractTokenFromHeader h = None)"
proof (intro conjI impI)
  assume "CHR '' '' \<notin> set t"
  then have "split_space (''Bearer'' @ CHR '' '' # t) = [''Bearer'', t]"
    by (subst split_space_two) simp
  then show "extractTokenFromHeader (Some (''Bearer'' @ '' '' @ t)) = Some t"
    by (simp add: extractTokenFromHeader_def)
next
  assume no: "\<forall>t. CHR '' '' \<notin> set t \<longrightarrow> h \<noteq> Some (''Bearer'' @ '' '' @ t)"
  show "extractTokenFromHeader h = None"
  proof (cases h)
    case None
    then show ?thesis by (simp add: extractTokenFromHeader_def)
  next
    case (Some s)
    show ?thesis
    proof (cases "length (split_space s) = 2 \<and> split_space s ! 0 = ''Bearer''")
      case False
      with Some show ?thesis by (auto simp add: extractTokenFromHeader_def Let_def)
    next
      case True
      then obtain a b where ab: "split_space s = [a, b]" by (auto simp add: length_two)
      with True have "a = ''Bearer''" by simp
      with ab have "s = ''Bearer'' @ CHR '' '' # b" "CHR '' '' \<notin> set b"
        by (simp_all add: split_space_two)
      with no Some show ?thesis by auto
    qed
  qed
qed

theorem extract_bearer_token_witness:
  "extractTokenFromHeader (Some ''Bearer abc.def.ghi'') = Some ''abc.def.ghi''
   \<and> extractTokenFromHeader (Some ''Basic abc'') = None
   \<and> extractTokenFromHeader (Some ''Bearer a b'') = None
   \<and> extractTokenFromHeader None = None"
proof -
  have "extractTokenFromHeader (Some (''Bearer'' @ '' '' @ ''abc.def.ghi'')) = Some ''abc.def.ghi''"
    using extract_bearer_token [of "''abc.def.ghi''" None] by simp
  moreover have "extractTokenFromHeader (Some ''Basic abc'') = None"
    using extract_bearer_token [of "''x''" "Some ''Basic abc''"] by simp
  moreover have "extractTokenFromHeader (Some ''Bearer a b'') = None"
    using extract_bearer_token [of "''x''" "Some ''Bearer a b''"] by auto
  moreover have "extractTokenFromHeader None = None"
    using extract_bearer_token [of "''x''" None] by simp
  ultimately show ?thesis by simp
qed

section \<open>Tenant resolution\<close>

lemma find_no_match: "(\<forall>a\<in>set db. \<not> P a) \<Longrightarrow> find P db = None"
  by (simp add: find_None_iff)

text \<open>The two setters commute, so the order in which mongoose runs them does not matter.\<close>

lemma toLowerChar_cases:
  "toLowerChar c = c \<or> c \<in> set ''ABCDEFGHIJKLMNOPQRSTUVWXYZ''"
  by (simp add: toLowerChar_def)

lemma isWhitespace_toLowerChar: "isWhitespace (toLowerChar c) = isWhitespace c"
  using toLowerChar_cases [of c]
  by (auto simp add: isWhitespace_def toLowerChar_def)

lemma dropWhile_toLowerCase:
  "dropWhile isWhitespace (toLowerCase s) = toLowerCase (dropWhile isWhitespace s)"
  by (induction s) (simp_all add: toLowerCase_def isWhitespace_toLowerChar)

lemma trim_toLowerCase: "trim (toLowerCase s) = toLowerCase (trim s)"
proof -
  have "rev (toLowerCase xs) = toLowerCase (rev xs)" for xs
    by (simp add: toLowerCase_def rev_map)
  then show ?thesis
    by (simp add: trim_def dropWhile_toLowerCase)
qed






section \<open>Ownership and permissions\<close>

lemma requireResourceOwnership_super_admin:
  assumes "user req = Some u" and "tp_role u = Some SUPER_ADMIN"
  shows "requireResourceOwnership isObjectId resourceParam db req = Inr req"
  using assms by (simp add: requireResourceOwnership_def)

lemma requireResourceOwnership_agency_user:
  assumes "user req = Some u" and "tp_role u \<noteq> Some SUPER_ADMIN" and "tp_role u \<noteq> Some CLIENT"
    and "tp_agencyId u = Some own" and "own \<noteq> []"
  shows "requireResourceOwnership isObjectId resourceParam db req =
           (case params req ''agencyId'' of
              None \<Rightarrow> Inr req
            | Some p \<Rightarrow>
                if p = [] \<or> p = own then Inr req
                else Inl (CustomError ''Access denied to this agency resource'' 403))"
  using assms
  by (simp add: requireResourceOwnership_def clientCheck_def truthy_def resourceAgencyId_def
        forbiddenError_def split: option.splits)

lemma clientCheck_status:
  "clientCheck isObjectId resourceParam db req u = Some err
     \<Longrightarrow> errorHandlerStatus err = 403 \<or> errorHandlerStatus err = 404"
  by (auto simp add: clientCheck_def findById_def forbiddenError_def Let_def
        split: if_splits option.splits sum.splits)

lemma requireResourceOwnership_with_agency:
  assumes "user req = Some u" and "tp_role u \<noteq> Some SUPER_ADMIN"
    and "tp_agencyId u = Some own" and "own \<noteq> []"
  shows "requireResourceOwnership isObjectId resourceParam db req =
           (case clientCheck isObjectId resourceParam db req u of
              Some err \<Rightarrow> Inl err
            | None \<Rightarrow>
                (case params req ''agencyId'' of
                   None \<Rightarrow> Inr req
                 | Some p \<Rightarrow>
                     if p = [] \<or> p = own then Inr req
                     else Inl (CustomError ''Access denied to this agency resource'' 403)))"
  using assms
  by (simp add: requireResourceOwnership_def truthy_def resourceAgencyId_def
        forbiddenError_def split: option.splits)

text \<open>
  Claim C7, as amended. A super admin passes the ownership check whatever the request
  targets. A principal that is not a super admin and carries an agency id passes only
  if the route's \<^verbatim>\<open>agencyId\<close> parameter is absent, empty or equal to its own agency id;
  with a parameter that is present and different the request fails, with the 403 error
  of the agency check when the principal is not a client, and with a 403 or the lookup's
  404 when it is. The check never reads the tenant of the targeted resource: without an
  \<^verbatim>\<open>agencyId\<close> parameter a principal that is not a client passes on every route.
\<close>

theorem ownership_check:
  "(user req = Some u \<and> tp_role u = Some SUPER_ADMIN \<longrightarrow>
      requireResourceOwnership isObjectId resourceParam db req = Inr req)
   \<and> (user req = Some u \<and> tp_role u \<noteq> Some SUPER_ADMIN
        \<and> tp_agencyId u = Some own \<and> own \<noteq> [] \<longrightarrow>
        (requireResourceOwnership isObjectId resourceParam db req = Inr r \<longrightarrow>
           r = req \<and> (params req ''agencyId'' = None \<or> params req ''agencyId'' = Some []
                      \<or> params req ''agencyId'' = Some own))
        \<and> (params req ''agencyId'' = Some p \<and> p \<noteq> [] \<and> p \<noteq> own \<longrightarrow>
             (\<exists>err. requireResourceOwnership isObjectId resourceParam db req = Inl err
                \<and> (errorHandlerStatus err = 403 \<or> errorHandlerStatus err = 404))
             \<and> (tp_role u \<noteq> Some CLIENT \<longrightarrow>
                  requireResourceOwnership isObjectId resourceParam db req
                    = Inl (CustomError ''Access denied to this agency resource'' 403)))
        \<and> (tp_role u \<noteq> Some CLIENT
             \<and> (params req ''agencyId'' = None \<or> params req ''agencyId'' = Some []
                 \<or> params req ''agencyId'' = Some own) \<longrightarrow>
             requireResourceOwnership isObjectId resourceParam db req = Inr req))"
proof (intro conjI impI)
  assume "user req = Some u \<and> tp_role u = Some SUPER_ADMIN"
  then show "requireResourceOwnership isObjectId resourceParam db req = Inr req"
    by (simp add: requireResourceOwnership_super_admin)
next
  assume h: "user req = Some u \<and> tp_role u \<noteq> Some SUPER_ADMIN
        \<and> tp_agencyId u = Some own \<and> own \<noteq> []"
    and ok: "requireResourceOwnership isObjectId resourceParam db req = Inr r"
  from h have eq: "requireResourceOwnership isObjectId resourceParam db req =
           (case clientCheck isObjectId resourceParam db req u of
              Some err \<Rightarrow> Inl err
            | None \<Rightarrow>
                (case params req ''agencyId'' of
                   None \<Rightarrow> Inr req
                 | Some p \<Rightarrow>
                     if p = [] \<or> p = own then Inr req
                     else Inl (CustomError ''Access denied to this agency resource'' 403)))"
    by (intro requireResourceOwnership_with_agency) simp_all
  from ok show "r = req"
    unfolding eq by (auto split: option.splits if_splits)
  from ok show "params req ''agencyId'' = None \<or> params req ''agencyId'' = Some []
                      \<or> params req ''agencyId'' = Some own"
    unfolding eq by (auto split: option.splits if_splits)
next
  assume h: "user req = Some u \<and> tp_role u \<noteq> Some SUPER_ADMIN
        \<and> tp_agencyId u = Some own \<and> own \<noteq> []"
    and p: "params req ''agencyId'' = Some p \<and> p \<noteq> [] \<and> p \<noteq> own"
  from h have eq: "requireResourceOwnership isObjectId resourceParam db req =
           (case clientCheck isObjectId resourceParam db req u of
              Some err \<Rightarrow> Inl err
            | None \<Rightarrow>
                (case params req ''agencyId'' of
                   None \<Rightarrow> Inr req
                 | Some p \<Rightarrow>
                     if p = [] \<or> p = own then Inr req
                     else Inl (CustomError ''Access denied to this agency resource'' 403)))"
    by (intro requireResourceOwnership_with_agency) simp_all
  show "\<exists>err. requireResourceOwnership isObjectId resourceParam db req = Inl err
                \<and> (errorHandlerStatus err = 403 \<or> errorHandlerStatus err = 404)"
  proof (cases "clientCheck isObjectId resourceParam db req u")
    case None
    with p show ?thesis unfolding eq by simp
  next
    case (Some err)
    with clientCheck_status [OF Some] show ?thesis unfolding eq by simp
  qed
  show "requireResourceOwnership isObjectId resourceParam db req
          = Inl (CustomError ''Access denied to this agency resource'' 403)"
    if "tp_role u \<noteq> Some CLIENT"
    using h p that by (simp add: requireResourceOwnership_agency_user)
next
  assume h: "user req = Some u \<and> tp_role u \<noteq> Some SUPER_ADMIN
        \<and> tp_agencyId u = Some own \<and> own \<noteq> []"
    and q: "tp_role u \<noteq> Some CLIENT
             \<and> (params req ''agencyId'' = None \<or> params req ''agencyId'' = Some []
                 \<or> params req ''agencyId'' = Some own)"
  then have "requireResourceOwnership isObjectId resourceParam db req =
           (case params req ''agencyId'' of
              None \<Rightarrow> Inr req
            | Some p \<Rightarrow>
                if p = [] \<or> p = own then Inr req
                else Inl (CustomError ''Access denied to this agency resource'' 403))"
    using requireResourceOwnership_agency_user [of req u own isObjectId resourceParam db]
    by blast
  with q show "requireResourceOwnership isObjectId resourceParam db req = Inr req"
    by auto
qed

lemma example_principals:
  "tp_role example_editor = Some ''editor''"
  "tp_agencyId example_editor = Some ''64b0000000000000000000a2''"
  "tp_role example_client = Some ''client''"
  "tp_agencyId example_client = Some ''64b0000000000000000000a2''"
  "tp_role example_super_admin = Some ''super_admin''"
  by (simp_all add: example_editor_def example_client_def example_super_admin_def
        no_claims_def)

theorem ownership_check_witness:
  "requireResourceOwnership hex24 ''id'' example_agencies
      (example_request\<lparr>user := Some example_super_admin, params := [''agencyId'' \<mapsto> ''64b0000000000000000000a3'']\<rparr>)
     = Inr (example_request\<lparr>user := Some example_super_admin,
                            params := [''agencyId'' \<mapsto> ''64b0000000000000000000a3'']\<rparr>)
   \<and> requireResourceOwnership hex24 ''id'' example_agencies
      (example_request\<lparr>user := Some example_editor, params := [''agencyId'' \<mapsto> ''64b0000000000000000000a3'']\<rparr>)
     = Inl (CustomError ''Access denied to this agency resource'' 403)
   \<and> requireResourceOwnership hex24 ''id'' example_agencies
      (example_request\<lparr>user := Some example_editor, params := [''agencyId'' \<mapsto> ''64b0000000000000000000a2'']\<rparr>)
     = Inr (example_request\<lparr>user := Some example_editor, params := [''agencyId'' \<mapsto> ''64b0000000000000000000a2'']\<rparr>)
   \<and> (\<exists>err. requireResourceOwnership hex24 ''id'' example_agencies
               (example_request\<lparr>user := Some example_client,
                                params := [''agencyId'' \<mapsto> ''64b0000000000000000000a3'', ''id'' \<mapsto> ''not-an-id''],
                                route_path := ''/agencies/:id''\<rparr>) = Inl err
         \<and> (errorHandlerStatus err = 403 \<or> errorHandlerStatus err = 404))
   \<and> requireResourceOwnership hex24 ''id'' example_agencies
        (example_request\<lparr>user := Some example_client,
                         params := [''agencyId'' \<mapsto> ''64b0000000000000000000a3'', ''id'' \<mapsto> ''not-an-id''],
                         route_path := ''/agencies/:id''\<rparr>)
     = Inl (CastError ''not-an-id'')"
proof -
  have 5: "requireResourceOwnership hex24 ''id'' example_agencies
        (example_request\<lparr>user := Some example_client,
                         params := [''agencyId'' \<mapsto> ''64b0000000000000000000a3'', ''id'' \<mapsto> ''not-an-id''],
                         route_path := ''/agencies/:id''\<rparr>)
     = Inl (CastError ''not-an-id'')"
    by (simp add: example_principals findById_def hex24_def requireResourceOwnership_def
          clientCheck_def SUPER_ADMIN_def CLIENT_def Let_def)
  have 1: "requireResourceOwnership hex24 ''id'' example_agencies
      (example_request\<lparr>user := Some example_super_admin, params := [''agencyId'' \<mapsto> ''64b0000000000000000000a3'']\<rparr>)
     = Inr (example_request\<lparr>user := Some example_super_admin,
                            params := [''agencyId'' \<mapsto> ''64b0000000000000000000a3'']\<rparr>)"
    using ownership_check
            [where req = "example_request\<lparr>user := Some example_super_admin,
                                          params := [''agencyId'' \<mapsto> ''64b0000000000000000000a3'']\<rparr>"
               and u = example_super_admin and isObjectId = hex24
               and resourceParam = "''id''" and db = example_agencies]
    by (simp add: example_principals SUPER_ADMIN_def)
  have 2: "requireResourceOwnership hex24 ''id'' example_agencies
      (example_request\<lparr>user := Some example_editor, params := [''agencyId'' \<mapsto> ''64b0000000000000000000a3'']\<rparr>)
     = Inl (CustomError ''Access denied to this agency resource'' 403)"
    using ownership_check
            [where req = "example_request\<lparr>user := Some example_editor,
                                          params := [''agencyId'' \<mapsto> ''64b0000000000000000000a3'']\<rparr>"
               and u = example_editor and isObjectId = hex24 and own = "''64b0000000000000000000a2''" and p = "''64b0000000000000000000a3''"
               and resourceParam = "''id''" and db = example_agencies]
    by (simp add: example_principals SUPER_ADMIN_def CLIENT_def)
  have 3: "requireResourceOwnership hex24 ''id'' example_agencies
      (example_request\<lparr>user := Some example_editor, params := [''agencyId'' \<mapsto> ''64b0000000000000000000a2'']\<rparr>)
     = Inr (example_request\<lparr>user := Some example_editor, params := [''agencyId'' \<mapsto> ''64b0000000000000000000a2'']\<rparr>)"
    using ownership_check
            [where req = "example_request\<lparr>user := Some example_editor,
                                          params := [''agencyId'' \<mapsto> ''64b0000000000000000000a2'']\<rparr>"
               and u = example_editor and isObjectId = hex24 and own = "''64b0000000000000000000a2''"
               and resourceParam = "''id''" and db = example_agencies]
    by (simp add: example_principals SUPER_ADMIN_def CLIENT_def)
  have 4: "\<exists>err. requireResourceOwnership hex24 ''id'' example_agencies
               (example_request\<lparr>user := Some example_client,
                                params := [''agencyId'' \<mapsto> ''64b0000000000000000000a3'', ''id'' \<mapsto> ''not-an-id''],
                                route_path := ''/agencies/:id''\<rparr>) = Inl err
         \<and> (errorHandlerStatus err = 403 \<or> errorHandlerStatus err = 404)"
    using ownership_check
            [where req = "example_request\<lparr>user := Some example_client,
                                params := [''agencyId'' \<mapsto> ''64b0000000000000000000a3'', ''id'' \<mapsto> ''not-an-id''],
                                route_path := ''/agencies/:id''\<rparr>"
               and u = example_client and isObjectId = hex24 and own = "''64b0000000000000000000a2''" and p = "''64b0000000000000000000a3''"
               and resourceParam = "''id''" and db = example_agencies]
    by (simp add: example_principals SUPER_ADMIN_def)
  from 1 2 3 4 5 show ?thesis by blast
qed

text \<open>
  The claim as stated fails. An editor of the second agency asks for
  \<^verbatim>\<open>/agencies/:id\<close> with the id of the third agency: the targeted resource is another
  tenant, the route has no \<^verbatim>\<open>agencyId\<close> parameter, and the check passes.
\<close>

theorem agency_user_passes_on_foreign_resource:
  "tp_role example_editor = Some AGENCY_EDITOR
   \<and> tp_agencyId example_editor = Some ''64b0000000000000000000a2''
   \<and> findById hex24 example_agencies (Some ''64b0000000000000000000a3'') = Inr (Some (example_agencies ! 2))
   \<and> agency_id (example_agencies ! 2) \<noteq> ''64b0000000000000000000a2''
   \<and> requireResourceOwnership hex24 ''id'' example_agencies
        (example_request\<lparr>user := Some example_editor, params := [''id'' \<mapsto> ''64b0000000000000000000a3''],
                         route_path := ''/agencies/:id''\<rparr>)
     = Inr (example_request\<lparr>user := Some example_editor, params := [''id'' \<mapsto> ''64b0000000000000000000a3''],
                            route_path := ''/agencies/:id''\<rparr>)"
  by (simp add: example_principals AGENCY_EDITOR_def findById_def findOne_def hex24_def
        example_agencies_def requireResourceOwnership_def clientCheck_def SUPER_ADMIN_def
        CLIENT_def truthy_def resourceAgencyId_def Let_def)

text \<open>
  Claim C8. For an authenticated principal whose permissions do not contain
  \<^verbatim>\<open>manage_students\<close> (or are absent), \<open>requirePermission\<close> for \<^verbatim>\<open>manage_students\<close> and
  \<open>requirePermissions\<close> for any list containing it answer a 403 error. Both guards pass
  exactly when the required permissions are members of the principal's list, and the
  principal's role has no influence on the answer.
\<close>

theorem permission_by_membership:
  "(user req = Some u \<and> (\<forall>ps. tp_permissions u = Some ps \<longrightarrow> MANAGE_STUDENTS \<notin> set ps) \<longrightarrow>
      requirePermission MANAGE_STUDENTS req
        = Inl (CustomError ''Permission required: manage_students'' 403)
      \<and> (MANAGE_STUDENTS \<in> set perms \<longrightarrow>
           requirePermissions perms req
             = Inl (CustomError (''Permissions required: '' @ join '', '' perms) 403)))
   \<and> (user req = Some u \<longrightarrow>
        (requirePermission perm req = Inr req
           \<longleftrightarrow> (\<exists>ps. tp_permissions u = Some ps \<and> perm \<in> set ps))
        \<and> (requirePermissions perms req = Inr req
           \<longleftrightarrow> (perms = [] \<or> (\<exists>ps. tp_permissions u = Some ps \<and> set perms \<subseteq> set ps)))
        \<and> requirePermission perm (req\<lparr>user := Some (u\<lparr>tp_role := r\<rparr>)\<rparr>)
            = map_sum id (\<lambda>q. q\<lparr>user := Some (u\<lparr>tp_role := r\<rparr>)\<rparr>) (requirePermission perm req))"
  by (auto simp add: requirePermission_def requirePermissions_def forbiddenError_def
        MANAGE_STUDENTS_def list_all_iff Let_def split: option.splits)

theorem permission_by_membership_witness:
  "tp_role example_viewer = Some AGENCY_VIEWER
   \<and> requirePermission ''manage_students'' (example_request\<lparr>user := Some example_viewer\<rparr>)
       = Inl (CustomError ''Permission required: manage_students'' 403)
   \<and> requirePermissions [''view_analytics'', ''manage_students'']
         (example_request\<lparr>user := Some example_viewer\<rparr>)
       = Inl (CustomError ''Permissions required: view_analytics, manage_students'' 403)
   \<and> requirePermission ''manage_students''
         (example_request\<lparr>user := Some (example_viewer\<lparr>tp_role := Some SUPER_ADMIN\<rparr>)\<rparr>)
       = Inl (CustomError ''Permission required: manage_students'' 403)"
proof -
  have v: "tp_permissions example_viewer = Some [''view_analytics'']"
    "tp_role example_viewer = Some AGENCY_VIEWER"
    by (simp_all add: example_viewer_def no_claims_def AGENCY_VIEWER_def)
  show ?thesis
    using permission_by_membership
            [where req = "example_request\<lparr>user := Some example_viewer\<rparr>"
               and u = example_viewer and perm = "''manage_students''"
               and perms = "[''view_analytics'', ''manage_students'']"
               and r = "Some SUPER_ADMIN"]
    by (simp add: v MANAGE_STUDENTS_def)
qed

section \<open>The auth rate limiter\<close>

lemma attempt_failed_fresh:
  assumes "store key = None" and "400 \<le> s"
  shows "attempt authRateLimiter store key now s =
           (s, store(key \<mapsto> \<lparr>windowStart = now, count = 1\<rparr>))"
  using assms by (simp add: attempt_def currentWindow_def authRateLimiter_def Let_def)

lemma attempt_failed_in_window:
  assumes "store key = Some \<lparr>windowStart = t0, count = n\<rparr>" and "now < t0 + 900000"
    and "400 \<le> s" and "n < 5"
  shows "attempt authRateLimiter store key now s =
           (s, store(key \<mapsto> \<lparr>windowStart = t0, count = n + 1\<rparr>))"
  using assms by (simp add: attempt_def currentWindow_def authRateLimiter_def Let_def)

lemma attempt_succeeded_in_window:
  assumes "store key = Some \<lparr>windowStart = t0, count = n\<rparr>" and "now < t0 + 900000"
    and "s < 400" and "n < 5"
  shows "attempt authRateLimiter store key now s =
           (s, store(key \<mapsto> \<lparr>windowStart = t0, count = n\<rparr>))"
  using assms by (simp add: attempt_def currentWindow_def authRateLimiter_def Let_def)

lemma attempt_over_cap:
  assumes "store key = Some \<lparr>windowStart = t0, count = n\<rparr>" and "now < t0 + 900000"
    and "5 \<le> n"
  shows "attempt authRateLimiter store key now s =
           (429, store(key \<mapsto> \<lparr>windowStart = t0, count = n + 1\<rparr>))"
  using assms by (simp add: attempt_def currentWindow_def authRateLimiter_def Let_def)

lemma attempt_after_window:
  assumes "store key = Some w" and "windowStart w + 900000 \<le> now"
  shows "fst (attempt authRateLimiter store key now s) = s"
  using assms by (simp add: attempt_def currentWindow_def authRateLimiter_def Let_def)

lemma attempt_success_uncounted:
  assumes "ok < 400" and "now \<le> now'"
    and "fst (attempt authRateLimiter store key now ok) \<noteq> 429"
  shows "count (currentWindow authRateLimiter (snd (attempt authRateLimiter store key now ok)) key now')
         = count (currentWindow authRateLimiter store key now')"
  using assms
  by (auto simp add: attempt_def currentWindow_def authRateLimiter_def Let_def
        split: option.splits if_splits)

lemma attempts_Cons:
  "attempts opts store ((key, now, s) # rest) =
     (fst (attempt opts store key now s)
        # fst (attempts opts (snd (attempt opts store key now s)) rest),
      snd (attempts opts (snd (attempt opts store key now s)) rest))"
  by (simp add: split_beta Let_def)

text \<open>
  Claim C9. Under the auth limiter's options (window 900000 ms, at most 5, successful
  requests skipped), from a key with no window yet: five failed attempts inside one
  window are answered by the handler, also with a successful attempt between them, the
  next attempt inside the window is answered 429 whatever the handler would say, and an
  attempt after the window has elapsed is answered by the handler again. An admitted
  successful attempt leaves the count that any later request of the key meets unchanged.
\<close>

theorem auth_rate_limiter_window:
  assumes fresh: "store ip = None"
    and failed: "400 \<le> s1 \<and> 400 \<le> s2 \<and> 400 \<le> s3 \<and> 400 \<le> s4 \<and> 400 \<le> s5"
    and succeeded: "ok < 400"
    and order: "t1 \<le> u \<and> u \<le> t2 \<and> t2 \<le> t3 \<and> t3 \<le> t4 \<and> t4 \<le> t5 \<and> t5 \<le> t6
                \<and> t6 < t1 + 900000"
    and later: "t1 + 900000 \<le> t7"
  shows "fst (attempts authRateLimiter store
           [(ip, t1, s1), (ip, t2, s2), (ip, t3, s3), (ip, t4, s4), (ip, t5, s5), (ip, t6, s6),
            (ip, t7, s7)])
         = [s1, s2, s3, s4, s5, 429, s7]
       \<and> fst (attempts authRateLimiter store
           [(ip, t1, s1), (ip, u, ok), (ip, t2, s2), (ip, t3, s3), (ip, t4, s4), (ip, t5, s5),
            (ip, t6, s6), (ip, t7, s7)])
         = [s1, ok, s2, s3, s4, s5, 429, s7]
       \<and> (\<forall>store' now now'. now \<le> now' \<and> fst (attempt authRateLimiter store' ip now ok) \<noteq> 429 \<longrightarrow>
            count (currentWindow authRateLimiter
                     (snd (attempt authRateLimiter store' ip now ok)) ip now')
              = count (currentWindow authRateLimiter store' ip now'))"
proof (intro conjI allI impI)
  show "fst (attempts authRateLimiter store
           [(ip, t1, s1), (ip, t2, s2), (ip, t3, s3), (ip, t4, s4), (ip, t5, s5), (ip, t6, s6),
            (ip, t7, s7)])
         = [s1, s2, s3, s4, s5, 429, s7]"
    using assms
    by (simp add: attempts_Cons attempt_failed_fresh attempt_failed_in_window
          attempt_over_cap attempt_after_window del: attempts.simps(2))
  show "fst (attempts authRateLimiter store
           [(ip, t1, s1), (ip, u, ok), (ip, t2, s2), (ip, t3, s3), (ip, t4, s4), (ip, t5, s5),
            (ip, t6, s6), (ip, t7, s7)])
         = [s1, ok, s2, s3, s4, s5, 429, s7]"
    using assms
    by (simp add: attempts_Cons attempt_failed_fresh attempt_failed_in_window
          attempt_succeeded_in_window attempt_over_cap attempt_after_window
          del: attempts.simps(2))
next
  fix store' now now'
  assume "now \<le> now' \<and> fst (attempt authRateLimiter store' ip now ok) \<noteq> 429"
  with succeeded show "count (currentWindow authRateLimiter
                     (snd (attempt authRateLimiter store' ip now ok)) ip now')
              = count (currentWindow authRateLimiter store' ip now')"
    by (simp add: attempt_success_uncounted)
qed

theorem auth_rate_limiter_window_witness:
  "fst (attempts authRateLimiter Map.empty
           [(''10.0.0.1'', 0, 401), (''10.0.0.1'', 1000, 401), (''10.0.0.1'', 2000, 401),
            (''10.0.0.1'', 3000, 401), (''10.0.0.1'', 4000, 401), (''10.0.0.1'', 5000, 200),
            (''10.0.0.1'', 900000, 401)])
         = [401, 401, 401, 401, 401, 429, 401]
   \<and> fst (attempts authRateLimiter Map.empty
           [(''10.0.0.1'', 0, 401), (''10.0.0.1'', 500, 200), (''10.0.0.1'', 1000, 401),
            (''10.0.0.1'', 2000, 401), (''10.0.0.1'', 3000, 401), (''10.0.0.1'', 4000, 401),
            (''10.0.0.1'', 5000, 200), (''10.0.0.1'', 900000, 401)])
         = [401, 200, 401, 401, 401, 401, 429, 401]"
  using auth_rate_limiter_window
          [where store = Map.empty and ip = "''10.0.0.1''" and ok = 200
             and ?s1.0 = 401 and ?s2.0 = 401 and ?s3.0 = 401 and ?s4.0 = 401 and ?s5.0 = 401
             and ?s6.0 = 200 and ?s7.0 = 401
             and ?t1.0 = 0 and u = 500 and ?t2.0 = 1000 and ?t3.0 = 2000 and ?t4.0 = 3000
             and ?t5.0 = 4000 and ?t6.0 = 5000 and ?t7.0 = 900000]
  by simp

end
